theory Spec2Isabelle
  imports Complex_Main
begin

section \<open>Batch normalization from scratch: the array model\<close>

text \<open>
  The notebook computes with MXNet \<open>NDArray\<close>s: a shape (the list of axis lengths) and
  the elements in row-major order. The function is modelled twice. First in exact
  arithmetic: a finite float is a \<open>real\<close> and no operation rounds; a float that is not
  finite (\<open>nan\<close>, \<open>inf\<close>, \<open>-inf\<close>) is \<open>None\<close> in the element type \<open>real option\<close>,
  and arises only where the code takes the square root of a negative number or divides
  by zero. Neither operation raises in MXNet. Then in float32 arithmetic, which is what
  the code computes: the same lines over the type \<open>f32\<close>, every operation rounding its
  result (\<open>pure_batch_norm32\<close>). Shapes, broadcasting, reshaping and the errors raised
  are the same definitions in both.
\<close>

datatype error = ValueError | MXNetError | UnboundLocalError

datatype 'a ndarray = NDArray (shape: "nat list") (data: "'a list")

text \<open>
  An array of MXNet 1.x has no axis of length zero, and holds as many elements as its
  shape says.
\<close>

definition valid :: "'a ndarray \<Rightarrow> bool" where
  "valid a = (0 \<notin> set (shape a) \<and> length (data a) = prod_list (shape a))"

definition bindE :: "error + 'a \<Rightarrow> ('a \<Rightarrow> error + 'b) \<Rightarrow> error + 'b" where
  "bindE r f = (case r of Inl e \<Rightarrow> Inl e | Inr v \<Rightarrow> f v)"

subsection \<open>Framework operations\<close>

text \<open>The \<open>i\<close>-th block of \<open>m\<close> consecutive elements.\<close>

definition chunk :: "nat \<Rightarrow> nat \<Rightarrow> 'a list \<Rightarrow> 'a list" where
  "chunk m i xs = take m (drop (i * m) xs)"

text \<open>
  Binary operators on two arrays (\<open>-\<close>, \<open>*\<close>, \<open>/\<close>, \<open>+\<close>) are MXNet's
  \<open>broadcast_*\<close> operators: the shorter shape is padded with ones on the left, the two
  lengths of an axis must be equal unless one of them is 1, and an axis of length 1 is
  repeated along the other operand's axis.
\<close>

definition pad_shape :: "nat \<Rightarrow> nat list \<Rightarrow> nat list" where
  "pad_shape r s = replicate (r - length s) 1 @ s"

fun broadcast_shape :: "nat list \<Rightarrow> nat list \<Rightarrow> nat list option" where
  "broadcast_shape [] [] = Some []"
| "broadcast_shape (a # as) (b # bs) =
     (if a = b \<or> a = 1 \<or> b = 1
      then map_option ((#) (max a b)) (broadcast_shape as bs)
      else None)"
| "broadcast_shape _ _ = None"

fun broadcast_data ::
  "('a \<Rightarrow> 'b \<Rightarrow> 'c) \<Rightarrow> nat list \<Rightarrow> nat list \<Rightarrow> 'a list \<Rightarrow> 'b list \<Rightarrow> 'c list" where
  "broadcast_data f (a # as) (b # bs) xs ys =
     concat (map (\<lambda>i. broadcast_data f as bs
                         (chunk (prod_list as) (if a = 1 then 0 else i) xs)
                         (chunk (prod_list bs) (if b = 1 then 0 else i) ys))
                 [0..<max a b])"
| "broadcast_data f _ _ xs ys = map2 f xs ys"

definition broadcast_op ::
  "('a \<Rightarrow> 'b \<Rightarrow> 'c) \<Rightarrow> 'a ndarray \<Rightarrow> 'b ndarray \<Rightarrow> error + 'c ndarray" where
  "broadcast_op f x y =
     (let r = max (length (shape x)) (length (shape y));
          sx = pad_shape r (shape x);
          sy = pad_shape r (shape y)
      in case broadcast_shape sx sy of
           None \<Rightarrow> Inl MXNetError
         | Some s \<Rightarrow> Inr (NDArray s (broadcast_data f sx sy (data x) (data y))))"

text \<open>An operator between an array and a Python scalar acts on every element.\<close>

definition scalar_op :: "('a \<Rightarrow> 'b) \<Rightarrow> 'a ndarray \<Rightarrow> 'b ndarray" where
  "scalar_op f x = NDArray (shape x) (map f (data x))"

text \<open>
  \<open>mx.nd.mean(x, axis)\<close>: the axes listed are summed away and the sums divided by the
  number of elements summed; the other axes keep their order. \<open>k\<close> counts the axes
  already passed.
\<close>

fun kept_shape :: "nat list \<Rightarrow> nat \<Rightarrow> nat list \<Rightarrow> nat list" where
  "kept_shape axes k [] = []"
| "kept_shape axes k (d # ds) =
     (if k \<in> set axes then kept_shape axes (Suc k) ds
      else d # kept_shape axes (Suc k) ds)"

fun sum_axes :: "nat list \<Rightarrow> nat \<Rightarrow> nat list \<Rightarrow> real list \<Rightarrow> real list" where
  "sum_axes axes k [] xs = xs"
| "sum_axes axes k (d # ds) xs =
     (let parts = map (\<lambda>i. sum_axes axes (Suc k) ds (chunk (prod_list ds) i xs)) [0..<d]
      in if k \<in> set axes
         then map (\<lambda>p. sum_list (map (\<lambda>c. c ! p) parts))
                  [0..<prod_list (kept_shape axes (Suc k) ds)]
         else concat parts)"

definition nd_mean :: "real ndarray \<Rightarrow> nat list \<Rightarrow> error + real ndarray" where
  "nd_mean x axes =
     (let s = shape x in
      if list_all (\<lambda>k. k < length s) axes \<and> distinct axes
      then let ks = kept_shape axes 0 s;
               n = prod_list (map ((!) s) axes)
           in Inr (NDArray (if ks = [] then [1] else ks)
                           (map (\<lambda>v. v / real n) (sum_axes axes 0 s (data x))))
      else Inl MXNetError)"

text \<open>
  \<open>x.reshape(s)\<close> keeps the elements under a shape of the same size. What it does
  with a shape of another size depends on the version of MXNet, so that part is a
  parameter \<open>mm\<close> of the model. In the MXNet the notebook ran, a smaller shape is
  accepted and keeps the leading elements: the notebook's own cell reshapes an array of
  17 elements to \<open>(2, 2, 2, 2)\<close>. MXNet 1.9.1 raises \<open>ValueError\<close>.
\<close>

definition reshape ::
  "('a ndarray \<Rightarrow> nat list \<Rightarrow> error + 'a ndarray) \<Rightarrow> 'a ndarray \<Rightarrow> nat list \<Rightarrow> error + 'a ndarray" where
  "reshape mm x s = (if prod_list s = length (data x) then Inr (NDArray s (data x))
                     else mm x s)"

definition mismatch_notebook :: "'a ndarray \<Rightarrow> nat list \<Rightarrow> error + 'a ndarray" where
  "mismatch_notebook x s =
     (if prod_list s \<le> length (data x) then Inr (NDArray s (take (prod_list s) (data x)))
      else Inl MXNetError)"

definition mismatch_1_9_1 :: "'a ndarray \<Rightarrow> nat list \<Rightarrow> error + 'a ndarray" where
  "mismatch_1_9_1 x s = Inl ValueError"

text \<open>
  Element operations. The square root of a negative number is \<open>nan\<close>, a division by
  zero is \<open>nan\<close> or infinite, and a product or sum with a float that is not finite and
  a finite one is not finite.
\<close>

definition fsqrt :: "real \<Rightarrow> real option" where
  "fsqrt v = (if v < 0 then None else Some (sqrt v))"

fun fdiv :: "real \<Rightarrow> real option \<Rightarrow> real option" where
  "fdiv x None = None"
| "fdiv x (Some d) = (if d = 0 then None else Some (x / d))"

fun fmul :: "real \<Rightarrow> real option \<Rightarrow> real option" where
  "fmul g None = None"
| "fmul g (Some v) = Some (g * v)"

fun fadd :: "real option \<Rightarrow> real \<Rightarrow> real option" where
  "fadd None b = None"
| "fadd (Some v) b = Some (v + b)"

subsection \<open>The function of the notebook\<close>

text \<open>
  \<^verbatim>\<open>def pure_batch_norm(X, gamma, beta, eps = 1e-5)\<close>: \<open>eps\<close> is an argument,
  \<open>1e-5\<close> when the caller gives none.
  Each local variable of the source is a definition. The dense branch:
  \<^verbatim>\<open>mean = mx.nd.mean(X, axis=0)\<close>,
  \<^verbatim>\<open>variance = mx.nd.mean((X - mean) ** 2, axis=0)\<close>,
  \<^verbatim>\<open>X_hat = (X - mean) * 1.0 / mx.nd.sqrt(variance + eps)\<close>, where the divisor
  \<^verbatim>\<open>mx.nd.sqrt(variance + eps)\<close> has a name of its own, and
  \<^verbatim>\<open>out = gamma * X_hat + beta\<close>.
\<close>

definition dense_mean :: "real ndarray \<Rightarrow> error + real ndarray" where
  "dense_mean X = nd_mean X [0]"

definition dense_variance :: "real ndarray \<Rightarrow> error + real ndarray" where
  "dense_variance X =
     bindE (dense_mean X) (\<lambda>mean.
     bindE (broadcast_op (-) X mean) (\<lambda>centred.
     nd_mean (scalar_op (\<lambda>v. v ^ 2) centred) [0]))"

definition dense_divisor :: "real ndarray \<Rightarrow> real \<Rightarrow> error + real option ndarray" where
  "dense_divisor X eps =
     bindE (dense_variance X) (\<lambda>variance.
     Inr (scalar_op fsqrt (scalar_op (\<lambda>v. v + eps) variance)))"

definition dense_X_hat :: "real ndarray \<Rightarrow> real \<Rightarrow> error + real option ndarray" where
  "dense_X_hat X eps =
     bindE (dense_mean X) (\<lambda>mean.
     bindE (dense_variance X) (\<lambda>variance.
     bindE (broadcast_op (-) X mean) (\<lambda>centred.
     bindE (dense_divisor X eps) (\<lambda>divisor.
     broadcast_op fdiv (scalar_op (\<lambda>v. v * 1) centred) divisor))))"

definition batch_norm_dense ::
  "real ndarray \<Rightarrow> real ndarray \<Rightarrow> real ndarray \<Rightarrow> real \<Rightarrow> error + real option ndarray" where
  "batch_norm_dense X gamma beta eps =
     bindE (dense_X_hat X eps) (\<lambda>X_hat.
     bindE (broadcast_op fmul gamma X_hat) (\<lambda>scaled.
     broadcast_op fadd scaled beta))"

text \<open>
  The 2-D convolution branch, with \<^verbatim>\<open>N, C, H, W = X.shape\<close>:
  \<^verbatim>\<open>mean = mx.nd.mean(X, axis=(0, 2, 3))\<close>,
  \<^verbatim>\<open>variance = mx.nd.mean((X - mean.reshape((1, C, 1, 1))) ** 2, axis=(0, 2, 3))\<close>,
  \<^verbatim>\<open>X_hat = (X - mean.reshape((1, C, 1, 1))) * 1.0 / mx.nd.sqrt(variance.reshape((1, C, 1, 1)) + eps)\<close>
  and
  \<^verbatim>\<open>out = gamma.reshape((1, C, 1, 1)) * X_hat + beta.reshape((1, C, 1, 1))\<close>.
\<close>

definition conv_mean :: "real ndarray \<Rightarrow> error + real ndarray" where
  "conv_mean X = nd_mean X [0, 2, 3]"

definition conv_variance ::
  "(real ndarray \<Rightarrow> nat list \<Rightarrow> error + real ndarray) \<Rightarrow> real ndarray \<Rightarrow> error + real ndarray" where
  "conv_variance mm X =
     (let C = shape X ! 1 in
      bindE (conv_mean X) (\<lambda>mean.
      bindE (reshape mm mean [1, C, 1, 1]) (\<lambda>mean4.
      bindE (broadcast_op (-) X mean4) (\<lambda>centred.
      nd_mean (scalar_op (\<lambda>v. v ^ 2) centred) [0, 2, 3]))))"

definition conv_divisor ::
  "(real ndarray \<Rightarrow> nat list \<Rightarrow> error + real ndarray) \<Rightarrow> real ndarray \<Rightarrow> real \<Rightarrow> error + real option ndarray" where
  "conv_divisor mm X eps =
     (let C = shape X ! 1 in
      bindE (conv_variance mm X) (\<lambda>variance.
      bindE (reshape mm variance [1, C, 1, 1]) (\<lambda>variance4.
      Inr (scalar_op fsqrt (scalar_op (\<lambda>v. v + eps) variance4)))))"

definition conv_X_hat ::
  "(real ndarray \<Rightarrow> nat list \<Rightarrow> error + real ndarray) \<Rightarrow> real ndarray \<Rightarrow> real \<Rightarrow> error + real option ndarray" where
  "conv_X_hat mm X eps =
     (let C = shape X ! 1 in
      bindE (conv_mean X) (\<lambda>mean.
      bindE (conv_variance mm X) (\<lambda>variance.
      bindE (reshape mm mean [1, C, 1, 1]) (\<lambda>mean4.
      bindE (broadcast_op (-) X mean4) (\<lambda>centred.
      bindE (conv_divisor mm X eps) (\<lambda>divisor.
      broadcast_op fdiv (scalar_op (\<lambda>v. v * 1) centred) divisor))))))"

definition batch_norm_conv ::
  "(real ndarray \<Rightarrow> nat list \<Rightarrow> error + real ndarray) \<Rightarrow> real ndarray \<Rightarrow> real ndarray \<Rightarrow> real ndarray \<Rightarrow> real
   \<Rightarrow> error + real option ndarray" where
  "batch_norm_conv mm X gamma beta eps =
     (let C = shape X ! 1 in
      bindE (conv_X_hat mm X eps) (\<lambda>X_hat.
      bindE (reshape mm gamma [1, C, 1, 1]) (\<lambda>gamma4.
      bindE (broadcast_op fmul gamma4 X_hat) (\<lambda>scaled.
      bindE (reshape mm beta [1, C, 1, 1]) (\<lambda>beta4.
      broadcast_op fadd scaled beta4)))))"

text \<open>
  The function: the rank check, then \<^verbatim>\<open>if len(X.shape) == 2\<close> and
  \<^verbatim>\<open>elif len(X.shape) == 4\<close>. There is no \<open>else\<close>; \<^verbatim>\<open>return out\<close> with
  neither branch taken would find \<open>out\<close> unbound.
\<close>

definition pure_batch_norm ::
  "(real ndarray \<Rightarrow> nat list \<Rightarrow> error + real ndarray) \<Rightarrow> real ndarray \<Rightarrow> real ndarray \<Rightarrow> real ndarray \<Rightarrow> real
   \<Rightarrow> error + real option ndarray" where
  "pure_batch_norm mm X gamma beta eps =
     (if length (shape X) \<notin> {2, 4} then Inl ValueError
      else if length (shape X) = 2 then batch_norm_dense X gamma beta eps
      else if length (shape X) = 4 then batch_norm_conv mm X gamma beta eps
      else Inl UnboundLocalError)"

section \<open>The formula of the specification\<close>

text \<open>
  The array with entry \<open>f i j\<close> in row \<open>i\<close> and column \<open>j\<close>, in row-major order.
\<close>

definition matrix :: "nat \<Rightarrow> nat \<Rightarrow> (nat \<Rightarrow> nat \<Rightarrow> 'a) \<Rightarrow> 'a list" where
  "matrix N C f = concat (map (\<lambda>i. map (f i) [0..<C]) [0..<N])"

text \<open>
  Entry \<open>(i, j)\<close> of a 2-D array, the mean of column \<open>j\<close> over the batch axis and
  the mean of the squared deviations from it.
\<close>

definition entry2 :: "'a ndarray \<Rightarrow> nat \<Rightarrow> nat \<Rightarrow> 'a" where
  "entry2 X i j = data X ! (i * (shape X ! 1) + j)"

definition batch_mean :: "real ndarray \<Rightarrow> nat \<Rightarrow> real" where
  "batch_mean X j = (\<Sum>i\<leftarrow>[0..<shape X ! 0]. entry2 X i j) / real (shape X ! 0)"

definition batch_var :: "real ndarray \<Rightarrow> nat \<Rightarrow> real" where
  "batch_var X j =
     (\<Sum>i\<leftarrow>[0..<shape X ! 0]. (entry2 X i j - batch_mean X j) ^ 2) / real (shape X ! 0)"

text \<open>
  The normalized, scaled and shifted value. It is a finite number when the radicand
  \<open>v + eps\<close> is positive; otherwise the square root is \<open>nan\<close> or the
  divisor is zero, and the float that results is not finite.
\<close>

definition bn_formula :: "real \<Rightarrow> real \<Rightarrow> real \<Rightarrow> real \<Rightarrow> real \<Rightarrow> real \<Rightarrow> real option" where
  "bn_formula g x m v eps b =
     (if 0 < v + eps then Some (g * (x - m) / sqrt (v + eps) + b) else None)"

text \<open>
  The same for a 4-D array of shape \<open>(N, C, H, W)\<close>: the array with entry
  \<open>f n c h w\<close>, entry \<open>(n, c, h, w)\<close> of an array, and the mean and the variance
  of channel \<open>c\<close> over the batch and the two spatial axes.
\<close>

definition tensor4 :: "nat \<Rightarrow> nat \<Rightarrow> nat \<Rightarrow> nat \<Rightarrow> (nat \<Rightarrow> nat \<Rightarrow> nat \<Rightarrow> nat \<Rightarrow> 'a) \<Rightarrow> 'a list" where
  "tensor4 N C H W f =
     concat (map (\<lambda>n. concat (map (\<lambda>c. matrix H W (f n c)) [0..<C])) [0..<N])"

definition entry4 :: "'a ndarray \<Rightarrow> nat \<Rightarrow> nat \<Rightarrow> nat \<Rightarrow> nat \<Rightarrow> 'a" where
  "entry4 X n c h w =
     (let C = shape X ! 1; H = shape X ! 2; W = shape X ! 3
      in data X ! (n * (C * (H * W)) + (c * (H * W) + (h * W + w))))"

definition channel_mean :: "real ndarray \<Rightarrow> nat \<Rightarrow> real" where
  "channel_mean X c =
     (let N = shape X ! 0; H = shape X ! 2; W = shape X ! 3
      in (\<Sum>n\<leftarrow>[0..<N]. \<Sum>h\<leftarrow>[0..<H]. \<Sum>w\<leftarrow>[0..<W]. entry4 X n c h w) / real (N * (H * W)))"

definition channel_var :: "real ndarray \<Rightarrow> nat \<Rightarrow> real" where
  "channel_var X c =
     (let N = shape X ! 0; H = shape X ! 2; W = shape X ! 3
      in (\<Sum>n\<leftarrow>[0..<N]. \<Sum>h\<leftarrow>[0..<H]. \<Sum>w\<leftarrow>[0..<W]. (entry4 X n c h w - channel_mean X c) ^ 2)
         / real (N * (H * W)))"

text \<open>
  The normalized value before scaling and shifting, under the same condition.
\<close>

definition standardized :: "real \<Rightarrow> real \<Rightarrow> real \<Rightarrow> real \<Rightarrow> real option" where
  "standardized x m v eps = (if 0 < v + eps then Some ((x - m) / sqrt (v + eps)) else None)"

text \<open>
  Column \<open>j\<close> of a 2-D array, and the mean and the variance of a list of numbers.
\<close>

definition column :: "'a ndarray \<Rightarrow> nat \<Rightarrow> 'a list" where
  "column X j = map (\<lambda>i. entry2 X i j) [0..<shape X ! 0]"

definition list_mean :: "real list \<Rightarrow> real" where
  "list_mean zs = sum_list zs / real (length zs)"

definition list_var :: "real list \<Rightarrow> real" where
  "list_var zs = list_mean (map (\<lambda>z. (z - list_mean zs) ^ 2) zs)"

section \<open>The training loop\<close>
























section \<open>The function on a store of arrays\<close>

text \<open>
  To state what a call leaves unchanged, the arrays live in a store and are named by
  their position in it. The store has one list for the arrays of finite numbers and one
  for the arrays whose elements may be \<open>nan\<close> or infinite. No statement of
  \<open>pure_batch_norm\<close> writes into an array (there is no \<open>+=\<close>, no slice assignment
  and no \<open>out=\<close> argument): every operator and every call of \<open>mx.nd.mean\<close>,
  \<open>mx.nd.sqrt\<close> and \<open>reshape\<close> makes a new array (\<open>reshape\<close> a view, which is
  never written), so each operation appends its result to the store and returns its
  position. An exception leaves the store as it is at that point.
\<close>

record heap =
  reals :: "real ndarray list"
  floats :: "real option ndarray list"

type_synonym 'a st = "heap \<Rightarrow> (error + 'a) \<times> heap"

definition bindS :: "'a st \<Rightarrow> ('a \<Rightarrow> 'b st) \<Rightarrow> 'b st" where
  "bindS m f = (\<lambda>h. case m h of (Inl e, h') \<Rightarrow> (Inl e, h') | (Inr v, h') \<Rightarrow> f v h')"

definition new_real :: "error + real ndarray \<Rightarrow> nat st" where
  "new_real r = (\<lambda>h. case r of
       Inl e \<Rightarrow> (Inl e, h)
     | Inr a \<Rightarrow> (Inr (length (reals h)), h\<lparr>reals := reals h @ [a]\<rparr>))"

definition new_float :: "error + real option ndarray \<Rightarrow> nat st" where
  "new_float r = (\<lambda>h. case r of
       Inl e \<Rightarrow> (Inl e, h)
     | Inr a \<Rightarrow> (Inr (length (floats h)), h\<lparr>floats := floats h @ [a]\<rparr>))"

definition st_mean :: "nat \<Rightarrow> nat list \<Rightarrow> nat st" where
  "st_mean x axes = (\<lambda>h. new_real (nd_mean (reals h ! x) axes) h)"

definition st_sub :: "nat \<Rightarrow> nat \<Rightarrow> nat st" where
  "st_sub x y = (\<lambda>h. new_real (broadcast_op (-) (reals h ! x) (reals h ! y)) h)"

definition st_scalar :: "(real \<Rightarrow> real) \<Rightarrow> nat \<Rightarrow> nat st" where
  "st_scalar f x = (\<lambda>h. new_real (Inr (scalar_op f (reals h ! x))) h)"

definition st_reshape ::
  "(real ndarray \<Rightarrow> nat list \<Rightarrow> error + real ndarray) \<Rightarrow> nat \<Rightarrow> nat list \<Rightarrow> nat st" where
  "st_reshape mm x s = (\<lambda>h. new_real (reshape mm (reals h ! x) s) h)"

definition st_sqrt :: "nat \<Rightarrow> nat st" where
  "st_sqrt x = (\<lambda>h. new_float (Inr (scalar_op fsqrt (reals h ! x))) h)"

definition st_div :: "nat \<Rightarrow> nat \<Rightarrow> nat st" where
  "st_div x y = (\<lambda>h. new_float (broadcast_op fdiv (reals h ! x) (floats h ! y)) h)"

definition st_mul :: "nat \<Rightarrow> nat \<Rightarrow> nat st" where
  "st_mul x y = (\<lambda>h. new_float (broadcast_op fmul (reals h ! x) (floats h ! y)) h)"

definition st_add :: "nat \<Rightarrow> nat \<Rightarrow> nat st" where
  "st_add x y = (\<lambda>h. new_float (broadcast_op fadd (floats h ! x) (reals h ! y)) h)"

text \<open>
  The two branches and the function, statement by statement, each intermediate result in
  a cell of its own.
\<close>

definition dense_st :: "nat \<Rightarrow> nat \<Rightarrow> nat \<Rightarrow> real \<Rightarrow> nat st" where
  "dense_st X gamma beta eps =
     bindS (st_mean X [0]) (\<lambda>mean.
     bindS (st_sub X mean) (\<lambda>t1.
     bindS (st_scalar (\<lambda>v. v ^ 2) t1) (\<lambda>t2.
     bindS (st_mean t2 [0]) (\<lambda>variance.
     bindS (st_sub X mean) (\<lambda>t3.
     bindS (st_scalar (\<lambda>v. v * 1) t3) (\<lambda>t4.
     bindS (st_scalar (\<lambda>v. v + eps) variance) (\<lambda>t5.
     bindS (st_sqrt t5) (\<lambda>t6.
     bindS (st_div t4 t6) (\<lambda>X_hat.
     bindS (st_mul gamma X_hat) (\<lambda>t7.
     st_add t7 beta))))))))))"

definition conv_st ::
  "(real ndarray \<Rightarrow> nat list \<Rightarrow> error + real ndarray) \<Rightarrow> nat \<Rightarrow> nat \<Rightarrow> nat \<Rightarrow> real \<Rightarrow> nat st" where
  "conv_st mm X gamma beta eps = (\<lambda>h.
     let C = shape (reals h ! X) ! 1 in
     (bindS (st_mean X [0, 2, 3]) (\<lambda>mean.
      bindS (st_reshape mm mean [1, C, 1, 1]) (\<lambda>mean4.
      bindS (st_sub X mean4) (\<lambda>t1.
      bindS (st_scalar (\<lambda>v. v ^ 2) t1) (\<lambda>t2.
      bindS (st_mean t2 [0, 2, 3]) (\<lambda>variance.
      bindS (st_reshape mm mean [1, C, 1, 1]) (\<lambda>mean4'.
      bindS (st_sub X mean4') (\<lambda>t3.
      bindS (st_scalar (\<lambda>v. v * 1) t3) (\<lambda>t4.
      bindS (st_reshape mm variance [1, C, 1, 1]) (\<lambda>variance4.
      bindS (st_scalar (\<lambda>v. v + eps) variance4) (\<lambda>t5.
      bindS (st_sqrt t5) (\<lambda>t6.
      bindS (st_div t4 t6) (\<lambda>X_hat.
      bindS (st_reshape mm gamma [1, C, 1, 1]) (\<lambda>gamma4.
      bindS (st_mul gamma4 X_hat) (\<lambda>t7.
      bindS (st_reshape mm beta [1, C, 1, 1]) (\<lambda>beta4.
      st_add t7 beta4)))))))))))))))) h)"

definition pure_batch_norm_st ::
  "(real ndarray \<Rightarrow> nat list \<Rightarrow> error + real ndarray) \<Rightarrow> nat \<Rightarrow> nat \<Rightarrow> nat \<Rightarrow> real \<Rightarrow> nat st" where
  "pure_batch_norm_st mm X gamma beta eps = (\<lambda>h.
     if length (shape (reals h ! X)) \<notin> {2, 4} then (Inl ValueError, h)
     else if length (shape (reals h ! X)) = 2 then dense_st X gamma beta eps h
     else if length (shape (reals h ! X)) = 4 then conv_st mm X gamma beta eps h
     else (Inl UnboundLocalError, h))"

section \<open>The function in float32 arithmetic\<close>

























section \<open>Lists cut into rows\<close>

lemma length_concat_rows:
  "(\<And>i. i < d \<Longrightarrow> length (F i) = m) \<Longrightarrow> length (concat (map F [0..<d])) = d * m"
  by (induction d) simp_all

lemma chunk_concat_rows:
  "(\<And>i. i < d \<Longrightarrow> length (F i) = m) \<Longrightarrow> i < d \<Longrightarrow> chunk m i (concat (map F [0..<d])) = F i"
proof (induction d)
  case 0
  then show ?case by simp
next
  case (Suc d)
  have len: "length (concat (map F [0..<d])) = d * m"
    using Suc.prems(1) by (simp add: length_concat_rows)
  show ?case
  proof (cases "i < d")
    case True
    then have "i * m + m \<le> d * m"
      by (metis Suc_leI mult_Suc mult_le_mono1 add.commute)
    with True Suc.IH Suc.prems(1) len show ?thesis
      by (simp add: chunk_def)
  next
    case False
    with Suc.prems(2) have "i = d" by simp
    with len Suc.prems(1) show ?thesis by (simp add: chunk_def)
  qed
qed

lemma concat_chunks: "concat (map (\<lambda>i. chunk m i xs) [0..<d]) = take (d * m) xs"
proof (induction d)
  case 0
  then show ?case by simp
next
  case (Suc d)
  have "take (d * m + m) xs = take (d * m) xs @ take m (drop (d * m) xs)"
    by (rule take_add)
  with Suc show ?case
    by (simp add: chunk_def add.commute)
qed

lemma length_chunk: "i < d \<Longrightarrow> length xs = d * m \<Longrightarrow> length (chunk m i xs) = m"
proof -
  assume a: "i < d" "length xs = d * m"
  then have "i * m + m \<le> d * m"
    by (metis Suc_leI mult_Suc mult_le_mono1 add.commute)
  with a show ?thesis by (simp add: chunk_def)
qed

lemma nth_chunk: "i < d \<Longrightarrow> j < m \<Longrightarrow> length xs = d * m \<Longrightarrow> chunk m i xs ! j = xs ! (i * m + j)"
proof -
  assume a: "i < d" "j < m" "length xs = d * m"
  then have "i * m + m \<le> d * m"
    by (metis Suc_leI mult_Suc mult_le_mono1 add.commute)
  with a show ?thesis by (simp add: chunk_def)
qed

lemma length_matrix: "length (matrix N C f) = N * C"
  by (simp add: matrix_def length_concat_rows)

lemma chunk_matrix: "i < N \<Longrightarrow> chunk C i (matrix N C f) = map (f i) [0..<C]"
  by (simp add: matrix_def chunk_concat_rows)

lemma nth_matrix: "i < N \<Longrightarrow> j < C \<Longrightarrow> matrix N C f ! (i * C + j) = f i j"
  using nth_chunk [of i N j C "matrix N C f"] by (simp add: length_matrix chunk_matrix)

lemma map_matrix: "map g (matrix N C f) = matrix N C (\<lambda>i j. g (f i j))"
  by (simp add: matrix_def map_concat comp_def)

declare broadcast_data.simps [simp del] sum_axes.simps [simp del]

lemma chunk_one: "j < length xs \<Longrightarrow> chunk (Suc 0) j xs = [xs ! j]"
  by (simp add: chunk_def take_Suc_conv_app_nth)

lemma chunk_all: "length xs = m \<Longrightarrow> chunk m 0 xs = xs"
  by (simp add: chunk_def)

lemma sum_axes_keep:
  "k \<notin> set axes \<Longrightarrow> sum_axes axes k (d # ds) xs =
     concat (map (\<lambda>i. sum_axes axes (Suc k) ds (chunk (prod_list ds) i xs)) [0..<d])"
  by (simp add: sum_axes.simps)

lemma sum_axes_drop:
  "k \<in> set axes \<Longrightarrow> sum_axes axes k (d # ds) xs =
     map (\<lambda>p. \<Sum>i\<leftarrow>[0..<d]. sum_axes axes (Suc k) ds (chunk (prod_list ds) i xs) ! p)
         [0..<prod_list (kept_shape axes (Suc k) ds)]"
  by (simp add: sum_axes.simps comp_def)

lemma sum_axes_leaf:
  assumes "length xs = C" "k \<notin> set axes"
  shows "sum_axes axes k [C] xs = xs"
proof -
  have "sum_axes axes k [C] xs = concat (map (\<lambda>i. chunk 1 i xs) [0..<C])"
    using assms(2) by (simp add: sum_axes_keep sum_axes.simps(1))
  also have "\<dots> = xs"
    using assms(1) by (simp add: concat_chunks)
  finally show ?thesis .
qed

lemma nd_mean_axis0:
  assumes "length xs = N * C"
  shows "nd_mean (NDArray [N, C] xs) [0] =
         Inr (NDArray [C] (map (\<lambda>j. (\<Sum>i\<leftarrow>[0..<N]. xs ! (i * C + j)) / real N) [0..<C]))"
proof -
  have row: "sum_axes [0] (Suc 0) [C] (chunk C i xs) ! j = xs ! (i * C + j)"
    if "i < N" "j < C" for i j
    using that assms by (simp add: sum_axes_leaf length_chunk [where d = N] nth_chunk [where d = N])
  have "sum_axes [0] 0 [N, C] xs = map (\<lambda>j. \<Sum>i\<leftarrow>[0..<N]. xs ! (i * C + j)) [0..<C]"
    using row by (auto simp: sum_axes_drop intro!: arg_cong [where f = sum_list])
  then show ?thesis
    by (simp add: nd_mean_def comp_def)
qed

lemma broadcast_nil: "broadcast_data f [] [] [x] [y] = [f x y]"
  by (simp add: broadcast_data.simps)

lemma broadcast_same:
  "broadcast_data f (d # as) (d # bs) xs ys =
     concat (map (\<lambda>i. broadcast_data f as bs (chunk (prod_list as) i xs) (chunk (prod_list bs) i ys))
                 [0..<d])"
  by (auto simp: broadcast_data.simps intro!: arg_cong [where f = concat])

lemma broadcast_right1:
  assumes "0 < d"
  shows "broadcast_data f (d # as) (Suc 0 # bs) xs ys =
     concat (map (\<lambda>i. broadcast_data f as bs (chunk (prod_list as) i xs) (chunk (prod_list bs) 0 ys))
                 [0..<d])"
proof (cases "d = Suc 0")
  case True
  then show ?thesis by (simp add: broadcast_same)
next
  case False
  with assms have "max d (Suc 0) = d" by simp
  with False show ?thesis by (simp add: broadcast_data.simps)
qed

lemma broadcast_left1:
  assumes "0 < d"
  shows "broadcast_data f (Suc 0 # as) (d # bs) xs ys =
     concat (map (\<lambda>i. broadcast_data f as bs (chunk (prod_list as) 0 xs) (chunk (prod_list bs) i ys))
                 [0..<d])"
proof (cases "d = Suc 0")
  case True
  then show ?thesis by (simp add: broadcast_same)
next
  case False
  with assms have "max (Suc 0) d = d" by simp
  with False show ?thesis by (simp add: broadcast_data.simps)
qed

lemma broadcast_vec:
  assumes "length xs = C" "length ys = C"
  shows "broadcast_data f [C] [C] xs ys = map (\<lambda>j. f (xs ! j) (ys ! j)) [0..<C]"
proof -
  have "broadcast_data f [] [] (chunk (Suc 0) j xs) (chunk (Suc 0) j ys) = [f (xs ! j) (ys ! j)]"
    if "j < C" for j
    using that assms by (simp add: chunk_one broadcast_nil)
  then have eq: "map (\<lambda>j. broadcast_data f [] [] (chunk (Suc 0) j xs) (chunk (Suc 0) j ys)) [0..<C]
             = map (\<lambda>j. [f (xs ! j) (ys ! j)]) [0..<C]"
    by simp
  have "broadcast_data f [C] [C] xs ys =
        concat (map (\<lambda>j. broadcast_data f [] [] (chunk (Suc 0) j xs) (chunk (Suc 0) j ys)) [0..<C])"
    by (simp add: broadcast_same)
  also have "\<dots> = map (\<lambda>j. f (xs ! j) (ys ! j)) [0..<C]"
    unfolding eq by (simp add: concat_map_singleton)
  finally show ?thesis .
qed

lemma broadcast_rows:
  assumes "0 < N" "length xs = N * C" "length ys = C"
  shows "broadcast_data f [N, C] [Suc 0, C] xs ys = matrix N C (\<lambda>i j. f (xs ! (i * C + j)) (ys ! j))"
  using assms
  by (auto simp: broadcast_right1 chunk_all broadcast_vec length_chunk [where d = N]
        nth_chunk [where d = N] matrix_def intro!: arg_cong [where f = concat])

lemma broadcast_rows_left:
  assumes "0 < N" "length xs = N * C" "length ys = C"
  shows "broadcast_data f [Suc 0, C] [N, C] ys xs = matrix N C (\<lambda>i j. f (ys ! j) (xs ! (i * C + j)))"
  using assms
  by (auto simp: broadcast_left1 chunk_all broadcast_vec length_chunk [where d = N]
        nth_chunk [where d = N] matrix_def intro!: arg_cong [where f = concat])

lemma broadcast_op_rows:
  assumes "0 < N" "length xs = N * C" "length ys = C"
  shows "broadcast_op f (NDArray [N, C] xs) (NDArray [C] ys) =
         Inr (NDArray [N, C] (matrix N C (\<lambda>i j. f (xs ! (i * C + j)) (ys ! j))))"
proof -
  from assms(1) have "max N (Suc 0) = N" by simp
  then show ?thesis
    using assms by (simp add: broadcast_op_def pad_shape_def broadcast_rows)
qed

lemma broadcast_op_rows_left:
  assumes "0 < N" "length xs = N * C" "length ys = C"
  shows "broadcast_op f (NDArray [C] ys) (NDArray [N, C] xs) =
         Inr (NDArray [N, C] (matrix N C (\<lambda>i j. f (ys ! j) (xs ! (i * C + j)))))"
proof -
  from assms(1) have "max (Suc 0) N = N" by simp
  then show ?thesis
    using assms by (simp add: broadcast_op_def pad_shape_def broadcast_rows_left)
qed

lemma matrix_cong:
  "(\<And>i j. i < N \<Longrightarrow> j < C \<Longrightarrow> f i j = g i j) \<Longrightarrow> matrix N C f = matrix N C g"
  unfolding matrix_def by (intro arg_cong [where f = concat] map_cong refl) simp

section \<open>Four axes\<close>

lemma nth_concat_rows:
  assumes "\<And>i. i < d \<Longrightarrow> length (F i) = m" "i < d" "j < m"
  shows "concat (map F [0..<d]) ! (i * m + j) = F i ! j"
  using nth_chunk [of i d j m "concat (map F [0..<d])"] assms
  by (simp add: chunk_concat_rows length_concat_rows)

lemma index_bound:
  assumes "i < d" "j < m"
  shows "i * m + j < d * (m::nat)"
proof -
  from assms(1) have "Suc i * m \<le> d * m"
    by (intro mult_le_mono1) simp
  with assms(2) show ?thesis by simp
qed

lemma length_tensor4: "length (tensor4 N C H W f) = N * (C * (H * W))"
  by (simp add: tensor4_def length_concat_rows length_matrix)

lemma nth_tensor4:
  assumes "n < N" "c < C" "h < H" "w < W"
  shows "tensor4 N C H W f ! (n * (C * (H * W)) + (c * (H * W) + (h * W + w))) = f n c h w"
proof -
  let ?plane = "\<lambda>n c. matrix H W (f n c)"
  let ?block = "\<lambda>n. concat (map (?plane n) [0..<C])"
  have hw: "h * W + w < H * W"
    using assms(3,4) by (rule index_bound)
  have chw: "c * (H * W) + (h * W + w) < C * (H * W)"
    using assms(2) hw by (rule index_bound)
  have len: "length (?block n) = C * (H * W)" for n
    by (simp add: length_concat_rows length_matrix)
  have "tensor4 N C H W f ! (n * (C * (H * W)) + (c * (H * W) + (h * W + w)))
        = ?block n ! (c * (H * W) + (h * W + w))"
    unfolding tensor4_def using len assms(1) chw by (intro nth_concat_rows) simp_all
  also have "\<dots> = ?plane n c ! (h * W + w)"
    using assms(2) hw by (intro nth_concat_rows) (simp_all add: length_matrix)
  also have "\<dots> = f n c h w"
    using assms(3,4) by (rule nth_matrix)
  finally show ?thesis .
qed

lemma map_tensor4: "map g (tensor4 N C H W f) = tensor4 N C H W (\<lambda>n c h w. g (f n c h w))"
  by (simp add: tensor4_def map_concat comp_def map_matrix)

lemma tensor4_cong:
  assumes "\<And>n c h w. n < N \<Longrightarrow> c < C \<Longrightarrow> h < H \<Longrightarrow> w < W \<Longrightarrow> f n c h w = g n c h w"
  shows "tensor4 N C H W f = tensor4 N C H W g"
  unfolding tensor4_def
  by (intro arg_cong [where f = concat] map_cong refl matrix_cong) (simp add: assms)

lemma sum_upt_cong:
  "(\<And>i. i < d \<Longrightarrow> f i = g i) \<Longrightarrow> (\<Sum>i\<leftarrow>[0..<d]. f i) = (\<Sum>i\<leftarrow>[0..<d]. (g i :: real))"
  by (intro arg_cong [where f = sum_list] map_cong refl) simp

lemma map_upt_cong:
  "(\<And>i. i < d \<Longrightarrow> f i = g i) \<Longrightarrow> map f [0..<d] = map g [0..<d]"
  by simp

lemma sum_axes_row:
  assumes "length ws = W" "k \<in> set axes"
  shows "sum_axes axes k [W] ws = [\<Sum>w\<leftarrow>[0..<W]. ws ! w]"
proof -
  have "(\<Sum>w\<leftarrow>[0..<W]. sum_axes axes (Suc k) [] (chunk (Suc 0) w ws) ! 0) = (\<Sum>w\<leftarrow>[0..<W]. ws ! w)"
    using assms(1) by (intro sum_upt_cong) (simp add: sum_axes.simps(1) chunk_one)
  with assms(2) show ?thesis
    by (simp add: sum_axes_drop)
qed

lemma sum_axes_plane:
  assumes "length zs = H * W" "k \<in> set axes" "Suc k \<in> set axes"
  shows "sum_axes axes k [H, W] zs = [\<Sum>h\<leftarrow>[0..<H]. \<Sum>w\<leftarrow>[0..<W]. zs ! (h * W + w)]"
proof -
  have "(\<Sum>h\<leftarrow>[0..<H]. sum_axes axes (Suc k) [W] (chunk W h zs) ! 0)
        = (\<Sum>h\<leftarrow>[0..<H]. \<Sum>w\<leftarrow>[0..<W]. zs ! (h * W + w))"
  proof (intro sum_upt_cong)
    fix h assume h: "h < H"
    have "sum_axes axes (Suc k) [W] (chunk W h zs) = [\<Sum>w\<leftarrow>[0..<W]. chunk W h zs ! w]"
      using h assms by (intro sum_axes_row) (simp_all add: length_chunk [where d = H])
    also have "(\<Sum>w\<leftarrow>[0..<W]. chunk W h zs ! w) = (\<Sum>w\<leftarrow>[0..<W]. zs ! (h * W + w))"
      using h assms(1) by (intro sum_upt_cong) (simp add: nth_chunk [where d = H])
    finally show "sum_axes axes (Suc k) [W] (chunk W h zs) ! 0 = (\<Sum>w\<leftarrow>[0..<W]. zs ! (h * W + w))"
      by simp
  qed
  with assms(2,3) show ?thesis
    by (simp add: sum_axes_drop)
qed

lemma sum_axes_block:
  assumes "length ys = C * (H * W)" "k \<notin> set axes" "Suc k \<in> set axes" "Suc (Suc k) \<in> set axes"
  shows "sum_axes axes k [C, H, W] ys =
         map (\<lambda>c. \<Sum>h\<leftarrow>[0..<H]. \<Sum>w\<leftarrow>[0..<W]. ys ! (c * (H * W) + (h * W + w))) [0..<C]"
proof -
  have "map (\<lambda>c. sum_axes axes (Suc k) [H, W] (chunk (H * W) c ys)) [0..<C]
        = map (\<lambda>c. [\<Sum>h\<leftarrow>[0..<H]. \<Sum>w\<leftarrow>[0..<W]. ys ! (c * (H * W) + (h * W + w))]) [0..<C]"
  proof (intro map_upt_cong)
    fix c assume c: "c < C"
    have "sum_axes axes (Suc k) [H, W] (chunk (H * W) c ys)
          = [\<Sum>h\<leftarrow>[0..<H]. \<Sum>w\<leftarrow>[0..<W]. chunk (H * W) c ys ! (h * W + w)]"
      using c assms by (intro sum_axes_plane) (simp_all add: length_chunk [where d = C])
    also have "(\<Sum>h\<leftarrow>[0..<H]. \<Sum>w\<leftarrow>[0..<W]. chunk (H * W) c ys ! (h * W + w))
               = (\<Sum>h\<leftarrow>[0..<H]. \<Sum>w\<leftarrow>[0..<W]. ys ! (c * (H * W) + (h * W + w)))"
      using c assms(1) by (intro sum_upt_cong) (simp add: nth_chunk [where d = C] index_bound)
    finally show "sum_axes axes (Suc k) [H, W] (chunk (H * W) c ys)
          = [\<Sum>h\<leftarrow>[0..<H]. \<Sum>w\<leftarrow>[0..<W]. ys ! (c * (H * W) + (h * W + w))]" .
  qed
  then have "concat (map (\<lambda>c. sum_axes axes (Suc k) [H, W] (chunk (H * W) c ys)) [0..<C])
        = map (\<lambda>c. \<Sum>h\<leftarrow>[0..<H]. \<Sum>w\<leftarrow>[0..<W]. ys ! (c * (H * W) + (h * W + w))) [0..<C]"
    by (simp only: concat_map_singleton)
  with assms(2) show ?thesis
    by (simp add: sum_axes_keep)
qed

lemma sum_axes_channels:
  assumes "length xs = N * (C * (H * W))"
  shows "sum_axes [0, 2, 3] 0 [N, C, H, W] xs =
         map (\<lambda>c. \<Sum>n\<leftarrow>[0..<N]. \<Sum>h\<leftarrow>[0..<H]. \<Sum>w\<leftarrow>[0..<W].
                    xs ! (n * (C * (H * W)) + (c * (H * W) + (h * W + w)))) [0..<C]"
proof -
  let ?A = "[0, 2, 3] :: nat list"
  have blk: "sum_axes ?A (Suc 0) [C, H, W] (chunk (C * (H * W)) n xs) ! c
        = (\<Sum>h\<leftarrow>[0..<H]. \<Sum>w\<leftarrow>[0..<W]. xs ! (n * (C * (H * W)) + (c * (H * W) + (h * W + w))))"
    if "n < N" "c < C" for n c
  proof -
    have "sum_axes ?A (Suc 0) [C, H, W] (chunk (C * (H * W)) n xs) =
          map (\<lambda>c. \<Sum>h\<leftarrow>[0..<H]. \<Sum>w\<leftarrow>[0..<W]. chunk (C * (H * W)) n xs ! (c * (H * W) + (h * W + w))) [0..<C]"
      using that assms by (intro sum_axes_block) (simp_all add: length_chunk [where d = N] eval_nat_numeral)
    moreover have "(\<Sum>h\<leftarrow>[0..<H]. \<Sum>w\<leftarrow>[0..<W]. chunk (C * (H * W)) n xs ! (c * (H * W) + (h * W + w)))
        = (\<Sum>h\<leftarrow>[0..<H]. \<Sum>w\<leftarrow>[0..<W]. xs ! (n * (C * (H * W)) + (c * (H * W) + (h * W + w))))"
      using that assms by (intro sum_upt_cong) (simp add: nth_chunk [where d = N] index_bound)
    ultimately show ?thesis using that by simp
  qed
  have "map (\<lambda>c. \<Sum>n\<leftarrow>[0..<N]. sum_axes ?A (Suc 0) [C, H, W] (chunk (C * (H * W)) n xs) ! c) [0..<C]
        = map (\<lambda>c. \<Sum>n\<leftarrow>[0..<N]. \<Sum>h\<leftarrow>[0..<H]. \<Sum>w\<leftarrow>[0..<W].
                    xs ! (n * (C * (H * W)) + (c * (H * W) + (h * W + w)))) [0..<C]"
    by (intro map_upt_cong sum_upt_cong blk)
  then show ?thesis
    by (simp add: sum_axes_drop)
qed

lemma nd_mean_channels:
  assumes "length xs = N * (C * (H * W))"
  shows "nd_mean (NDArray [N, C, H, W] xs) [0, 2, 3] =
         Inr (NDArray [C] (map (\<lambda>c. (\<Sum>n\<leftarrow>[0..<N]. \<Sum>h\<leftarrow>[0..<H]. \<Sum>w\<leftarrow>[0..<W].
                    xs ! (n * (C * (H * W)) + (c * (H * W) + (h * W + w)))) / real (N * (H * W)))
               [0..<C]))"
  using assms by (simp add: nd_mean_def sum_axes_channels comp_def)

lemma broadcast_cell:
  assumes "0 < W" "length ws = W"
  shows "broadcast_data f [W] [Suc 0] ws [y] = map (\<lambda>w. f (ws ! w) y) [0..<W]"
proof -
  have "map (\<lambda>w. broadcast_data f [] [] (chunk (Suc 0) w ws) (chunk (Suc 0) 0 [y])) [0..<W]
        = map (\<lambda>w. [f (ws ! w) y]) [0..<W]"
    using assms(2) by (intro map_upt_cong) (simp add: chunk_one broadcast_nil)
  then have "concat (map (\<lambda>w. broadcast_data f [] [] (chunk (Suc 0) w ws) (chunk (Suc 0) 0 [y])) [0..<W])
        = map (\<lambda>w. f (ws ! w) y) [0..<W]"
    by (simp only: concat_map_singleton)
  with assms(1) show ?thesis
    by (simp add: broadcast_right1)
qed

lemma broadcast_plane:
  assumes "0 < H" "0 < W" "length zs = H * W"
  shows "broadcast_data f [H, W] [Suc 0, Suc 0] zs [y] = matrix H W (\<lambda>h w. f (zs ! (h * W + w)) y)"
proof -
  have eq: "map (\<lambda>h. broadcast_data f [W] [Suc 0] (chunk W h zs) (chunk (Suc 0) 0 [y])) [0..<H]
        = map (\<lambda>h. map (\<lambda>w. f (zs ! (h * W + w)) y) [0..<W]) [0..<H]"
  proof (intro map_upt_cong)
    fix h assume h: "h < H"
    have "broadcast_data f [W] [Suc 0] (chunk W h zs) [y] = map (\<lambda>w. f (chunk W h zs ! w) y) [0..<W]"
      using h assms by (intro broadcast_cell) (simp_all add: length_chunk [where d = H])
    also have "\<dots> = map (\<lambda>w. f (zs ! (h * W + w)) y) [0..<W]"
      using h assms(3) by (intro map_upt_cong) (simp add: nth_chunk [where d = H])
    finally show "broadcast_data f [W] [Suc 0] (chunk W h zs) (chunk (Suc 0) 0 [y])
                  = map (\<lambda>w. f (zs ! (h * W + w)) y) [0..<W]"
      by (simp add: chunk_all)
  qed
  have "broadcast_data f [H, W] [Suc 0, Suc 0] zs [y] =
        concat (map (\<lambda>h. broadcast_data f [W] [Suc 0] (chunk W h zs) (chunk (Suc 0) 0 [y])) [0..<H])"
    using assms(1) by (simp add: broadcast_right1)
  also have "\<dots> = matrix H W (\<lambda>h w. f (zs ! (h * W + w)) y)"
    by (simp only: eq matrix_def)
  finally show ?thesis .
qed

lemma broadcast_block:
  assumes "0 < H" "0 < W" "length us = C * (H * W)" "length ys = C"
  shows "broadcast_data f [C, H, W] [C, Suc 0, Suc 0] us ys =
         concat (map (\<lambda>c. matrix H W (\<lambda>h w. f (us ! (c * (H * W) + (h * W + w))) (ys ! c))) [0..<C])"
proof -
  have eq: "map (\<lambda>c. broadcast_data f [H, W] [Suc 0, Suc 0] (chunk (H * W) c us) (chunk (Suc 0) c ys)) [0..<C]
        = map (\<lambda>c. matrix H W (\<lambda>h w. f (us ! (c * (H * W) + (h * W + w))) (ys ! c))) [0..<C]"
  proof (intro map_upt_cong)
    fix c assume c: "c < C"
    have "broadcast_data f [H, W] [Suc 0, Suc 0] (chunk (H * W) c us) [ys ! c]
          = matrix H W (\<lambda>h w. f (chunk (H * W) c us ! (h * W + w)) (ys ! c))"
      using c assms by (intro broadcast_plane) (simp_all add: length_chunk [where d = C])
    also have "\<dots> = matrix H W (\<lambda>h w. f (us ! (c * (H * W) + (h * W + w))) (ys ! c))"
      using c assms(3) by (intro matrix_cong) (simp add: nth_chunk [where d = C] index_bound)
    finally show "broadcast_data f [H, W] [Suc 0, Suc 0] (chunk (H * W) c us) (chunk (Suc 0) c ys)
          = matrix H W (\<lambda>h w. f (us ! (c * (H * W) + (h * W + w))) (ys ! c))"
      using c assms(4) by (simp add: chunk_one)
  qed
  have "broadcast_data f [C, H, W] [C, Suc 0, Suc 0] us ys =
        concat (map (\<lambda>c. broadcast_data f [H, W] [Suc 0, Suc 0] (chunk (H * W) c us) (chunk (Suc 0) c ys)) [0..<C])"
    by (simp add: broadcast_same)
  then show ?thesis
    by (simp only: eq)
qed

lemma broadcast_channels:
  assumes "0 < N" "0 < H" "0 < W" "length xs = N * (C * (H * W))" "length ys = C"
  shows "broadcast_data f [N, C, H, W] [Suc 0, C, Suc 0, Suc 0] xs ys =
         tensor4 N C H W (\<lambda>n c h w. f (xs ! (n * (C * (H * W)) + (c * (H * W) + (h * W + w)))) (ys ! c))"
proof -
  have eq: "map (\<lambda>n. broadcast_data f [C, H, W] [C, Suc 0, Suc 0] (chunk (C * (H * W)) n xs) (chunk C 0 ys)) [0..<N]
        = map (\<lambda>n. concat (map (\<lambda>c. matrix H W (\<lambda>h w.
             f (xs ! (n * (C * (H * W)) + (c * (H * W) + (h * W + w)))) (ys ! c))) [0..<C])) [0..<N]"
  proof (intro map_upt_cong)
    fix n assume n: "n < N"
    let ?us = "chunk (C * (H * W)) n xs"
    have "broadcast_data f [C, H, W] [C, Suc 0, Suc 0] ?us ys =
          concat (map (\<lambda>c. matrix H W (\<lambda>h w. f (?us ! (c * (H * W) + (h * W + w))) (ys ! c))) [0..<C])"
      using n assms by (intro broadcast_block) (simp_all add: length_chunk [where d = N])
    also have "\<dots> = concat (map (\<lambda>c. matrix H W (\<lambda>h w.
             f (xs ! (n * (C * (H * W)) + (c * (H * W) + (h * W + w)))) (ys ! c))) [0..<C])"
      using n assms(4)
      by (intro arg_cong [where f = concat] map_upt_cong matrix_cong)
         (simp add: nth_chunk [where d = N] index_bound)
    finally show "broadcast_data f [C, H, W] [C, Suc 0, Suc 0] ?us (chunk C 0 ys) =
          concat (map (\<lambda>c. matrix H W (\<lambda>h w.
             f (xs ! (n * (C * (H * W)) + (c * (H * W) + (h * W + w)))) (ys ! c))) [0..<C])"
      using assms(5) by (simp add: chunk_all)
  qed
  have "broadcast_data f [N, C, H, W] [Suc 0, C, Suc 0, Suc 0] xs ys =
        concat (map (\<lambda>n. broadcast_data f [C, H, W] [C, Suc 0, Suc 0] (chunk (C * (H * W)) n xs) (chunk C 0 ys)) [0..<N])"
    using assms(1) by (simp add: broadcast_right1)
  then show ?thesis
    by (simp only: eq tensor4_def)
qed

lemma map2_flip: "map2 f xs ys = map2 (\<lambda>b a. f a b) ys xs"
  by (induction xs ys rule: list_induct2') simp_all

lemma broadcast_data_flip:
  "broadcast_data f sa sb xs ys = broadcast_data (\<lambda>b a. f a b) sb sa ys xs"
proof (induction f sa sb xs ys rule: broadcast_data.induct)
  case (1 f a as b bs xs ys)
  have "map (\<lambda>i. broadcast_data f as bs (chunk (prod_list as) (if a = 1 then 0 else i) xs)
                    (chunk (prod_list bs) (if b = 1 then 0 else i) ys)) [0..<max a b]
        = map (\<lambda>i. broadcast_data (\<lambda>b a. f a b) bs as (chunk (prod_list bs) (if b = 1 then 0 else i) ys)
                    (chunk (prod_list as) (if a = 1 then 0 else i) xs)) [0..<max a b]"
    by (intro map_upt_cong) (rule "1.IH", simp)
  then show ?case
    by (simp only: broadcast_data.simps max.commute [of b a])
qed (simp_all only: broadcast_data.simps, rule map2_flip, rule map2_flip)

lemma broadcast_shape_commute: "broadcast_shape sa sb = broadcast_shape sb sa"
  by (induction sa sb rule: broadcast_shape.induct) (auto simp: max.commute)

lemma broadcast_op_flip: "broadcast_op f x y = broadcast_op (\<lambda>b a. f a b) y x"
proof -
  let ?r = "max (length (shape x)) (length (shape y))"
  have r: "max (length (shape y)) (length (shape x)) = ?r"
    by (rule max.commute)
  have s: "broadcast_shape (pad_shape ?r (shape y)) (pad_shape ?r (shape x))
           = broadcast_shape (pad_shape ?r (shape x)) (pad_shape ?r (shape y))"
    by (rule broadcast_shape_commute)
  have d: "broadcast_data (\<lambda>b a. f a b) (pad_shape ?r (shape y)) (pad_shape ?r (shape x)) (data y) (data x)
           = broadcast_data f (pad_shape ?r (shape x)) (pad_shape ?r (shape y)) (data x) (data y)"
    by (rule broadcast_data_flip [symmetric])
  show ?thesis
    unfolding broadcast_op_def Let_def r s d ..
qed

section \<open>Closed form of the dense branch\<close>

lemma fdiv_fsqrt: "fdiv (x - m) (fsqrt (v + eps)) = standardized x m v eps"
  by (simp add: fsqrt_def standardized_def)

lemma scale_shift: "fadd (fmul g (standardized x m v eps)) b = bn_formula g x m v eps b"
  by (simp add: standardized_def bn_formula_def)

lemma entry2_NDArray: "entry2 (NDArray [N, C] xs) i j = xs ! (i * C + j)"
  by (simp add: entry2_def)

lemma dense_mean_closed:
  assumes "length xs = N * C"
  shows "dense_mean (NDArray [N, C] xs) = Inr (NDArray [C] (map (batch_mean (NDArray [N, C] xs)) [0..<C]))"
  using assms by (simp add: dense_mean_def nd_mean_axis0 batch_mean_def entry2_def)

lemma dense_centred:
  assumes "0 < N" "length xs = N * C"
  shows "broadcast_op (-) (NDArray [N, C] xs) (NDArray [C] (map (batch_mean (NDArray [N, C] xs)) [0..<C])) =
         Inr (NDArray [N, C] (matrix N C (\<lambda>i j. xs ! (i * C + j) - batch_mean (NDArray [N, C] xs) j)))"
  using assms by (simp add: broadcast_op_rows cong: matrix_cong)

lemma dense_variance_closed:
  assumes "0 < N" "length xs = N * C"
  shows "dense_variance (NDArray [N, C] xs) = Inr (NDArray [C] (map (batch_var (NDArray [N, C] xs)) [0..<C]))"
proof -
  let ?m = "batch_mean (NDArray [N, C] xs)"
  have "(\<Sum>i\<leftarrow>[0..<N]. matrix N C (\<lambda>i j. (xs ! (i * C + j) - ?m j)\<^sup>2) ! (i * C + j)) =
        (\<Sum>i\<leftarrow>[0..<N]. (xs ! (i * C + j) - ?m j)\<^sup>2)" if "j < C" for j
    using that by (intro sum_upt_cong) (simp add: nth_matrix)
  then have "nd_mean (NDArray [N, C] (matrix N C (\<lambda>i j. (xs ! (i * C + j) - ?m j)\<^sup>2))) [0] =
     Inr (NDArray [C] (map (batch_var (NDArray [N, C] xs)) [0..<C]))"
    by (simp add: nd_mean_axis0 length_matrix batch_var_def entry2_def)
  with assms show ?thesis
    by (simp add: dense_variance_def dense_mean_closed dense_centred bindE_def scalar_op_def map_matrix)
qed

lemma dense_divisor_closed:
  assumes "0 < N" "length xs = N * C"
  shows "dense_divisor (NDArray [N, C] xs) eps =
         Inr (NDArray [C] (map (\<lambda>j. fsqrt (batch_var (NDArray [N, C] xs) j + eps)) [0..<C]))"
  using assms by (simp add: dense_divisor_def dense_variance_closed bindE_def scalar_op_def comp_def)

lemma dense_X_hat_closed:
  assumes "0 < N" "length xs = N * C"
  shows "dense_X_hat (NDArray [N, C] xs) eps =
         Inr (NDArray [N, C] (matrix N C (\<lambda>i j.
            standardized (xs ! (i * C + j)) (batch_mean (NDArray [N, C] xs) j)
                         (batch_var (NDArray [N, C] xs) j) eps)))"
  using assms
  by (simp add: dense_X_hat_def dense_mean_closed dense_variance_closed dense_centred
        dense_divisor_closed bindE_def scalar_op_def map_matrix length_matrix broadcast_op_rows
        nth_matrix fdiv_fsqrt cong: matrix_cong)

lemma batch_norm_dense_closed:
  assumes "0 < N" "length xs = N * C" "length gs = C" "length bs = C"
  shows "batch_norm_dense (NDArray [N, C] xs) (NDArray [C] gs) (NDArray [C] bs) eps =
         Inr (NDArray [N, C] (matrix N C (\<lambda>i j.
            bn_formula (gs ! j) (xs ! (i * C + j)) (batch_mean (NDArray [N, C] xs) j)
                       (batch_var (NDArray [N, C] xs) j) eps (bs ! j))))"
  using assms
  by (simp add: batch_norm_dense_def dense_X_hat_closed bindE_def length_matrix
        broadcast_op_rows broadcast_op_rows_left nth_matrix scale_shift cong: matrix_cong)

section \<open>Closed form of the convolution branch\<close>

lemma broadcast_op_channels:
  assumes "0 < N" "0 < H" "0 < W" "length xs = N * (C * (H * W))" "length ys = C"
  shows "broadcast_op f (NDArray [N, C, H, W] xs) (NDArray [Suc 0, C, Suc 0, Suc 0] ys) =
         Inr (NDArray [N, C, H, W] (tensor4 N C H W (\<lambda>n c h w.
            f (xs ! (n * (C * (H * W)) + (c * (H * W) + (h * W + w)))) (ys ! c))))"
proof -
  from assms(1-3) have "max N (Suc 0) = N" "max H (Suc 0) = H" "max W (Suc 0) = W"
    by simp_all
  then show ?thesis
    using assms by (simp add: broadcast_op_def pad_shape_def broadcast_channels)
qed

lemma broadcast_op_channels_left:
  assumes "0 < N" "0 < H" "0 < W" "length xs = N * (C * (H * W))" "length ys = C"
  shows "broadcast_op f (NDArray [Suc 0, C, Suc 0, Suc 0] ys) (NDArray [N, C, H, W] xs) =
         Inr (NDArray [N, C, H, W] (tensor4 N C H W (\<lambda>n c h w.
            f (ys ! c) (xs ! (n * (C * (H * W)) + (c * (H * W) + (h * W + w)))))))"
  using assms by (subst broadcast_op_flip) (simp add: broadcast_op_channels)

lemma entry4_NDArray:
  "entry4 (NDArray [N, C, H, W] xs) n c h w = xs ! (n * (C * (H * W)) + (c * (H * W) + (h * W + w)))"
  by (simp add: entry4_def)

lemma conv_mean_closed:
  assumes "length xs = N * (C * (H * W))"
  shows "conv_mean (NDArray [N, C, H, W] xs) =
         Inr (NDArray [C] (map (channel_mean (NDArray [N, C, H, W] xs)) [0..<C]))"
  using assms by (simp add: conv_mean_def nd_mean_channels channel_mean_def entry4_def)

lemma conv_centred:
  assumes "0 < N" "0 < H" "0 < W" "length xs = N * (C * (H * W))"
  shows "broadcast_op (-) (NDArray [N, C, H, W] xs)
           (NDArray [Suc 0, C, Suc 0, Suc 0] (map (channel_mean (NDArray [N, C, H, W] xs)) [0..<C])) =
         Inr (NDArray [N, C, H, W] (tensor4 N C H W (\<lambda>n c h w.
            xs ! (n * (C * (H * W)) + (c * (H * W) + (h * W + w))) - channel_mean (NDArray [N, C, H, W] xs) c)))"
  using assms by (simp add: broadcast_op_channels cong: tensor4_cong)

lemma conv_variance_closed:
  assumes "0 < N" "0 < H" "0 < W" "length xs = N * (C * (H * W))"
  shows "conv_variance mm (NDArray [N, C, H, W] xs) =
         Inr (NDArray [C] (map (channel_var (NDArray [N, C, H, W] xs)) [0..<C]))"
proof -
  let ?X = "NDArray [N, C, H, W] xs"
  let ?m = "channel_mean ?X"
  let ?ix = "\<lambda>n c h w. n * (C * (H * W)) + (c * (H * W) + (h * W + w))"
  have "(\<Sum>n\<leftarrow>[0..<N]. \<Sum>h\<leftarrow>[0..<H]. \<Sum>w\<leftarrow>[0..<W].
           tensor4 N C H W (\<lambda>n c h w. (xs ! ?ix n c h w - ?m c)\<^sup>2) ! ?ix n c h w) =
        (\<Sum>n\<leftarrow>[0..<N]. \<Sum>h\<leftarrow>[0..<H]. \<Sum>w\<leftarrow>[0..<W]. (xs ! ?ix n c h w - ?m c)\<^sup>2)"
    if "c < C" for c
    using that by (intro sum_upt_cong) (simp add: nth_tensor4)
  then have "nd_mean (NDArray [N, C, H, W] (tensor4 N C H W (\<lambda>n c h w. (xs ! ?ix n c h w - ?m c)\<^sup>2))) [0, 2, 3] =
     Inr (NDArray [C] (map (channel_var ?X) [0..<C]))"
    by (simp add: nd_mean_channels length_tensor4 channel_var_def entry4_def)
  with assms show ?thesis
    by (simp add: conv_variance_def conv_mean_closed conv_centred bindE_def reshape_def
          scalar_op_def map_tensor4)
qed

lemma conv_divisor_closed:
  assumes "0 < N" "0 < H" "0 < W" "length xs = N * (C * (H * W))"
  shows "conv_divisor mm (NDArray [N, C, H, W] xs) eps =
         Inr (NDArray [1, C, 1, 1] (map (\<lambda>c. fsqrt (channel_var (NDArray [N, C, H, W] xs) c + eps)) [0..<C]))"
  using assms
  by (simp add: conv_divisor_def conv_variance_closed bindE_def reshape_def scalar_op_def comp_def)

lemma conv_X_hat_closed:
  assumes "0 < N" "0 < H" "0 < W" "length xs = N * (C * (H * W))"
  shows "conv_X_hat mm (NDArray [N, C, H, W] xs) eps =
         Inr (NDArray [N, C, H, W] (tensor4 N C H W (\<lambda>n c h w.
            standardized (entry4 (NDArray [N, C, H, W] xs) n c h w)
                         (channel_mean (NDArray [N, C, H, W] xs) c)
                         (channel_var (NDArray [N, C, H, W] xs) c) eps)))"
  using assms
  by (simp add: conv_X_hat_def conv_mean_closed conv_variance_closed conv_centred
        conv_divisor_closed bindE_def reshape_def scalar_op_def map_tensor4 length_tensor4
        broadcast_op_channels nth_tensor4 fdiv_fsqrt entry4_NDArray cong: tensor4_cong)

lemma batch_norm_conv_closed:
  assumes "0 < N" "0 < H" "0 < W" "length xs = N * (C * (H * W))" "length gs = C" "length bs = C"
  shows "batch_norm_conv mm (NDArray [N, C, H, W] xs) (NDArray sg gs) (NDArray sb bs) eps =
         Inr (NDArray [N, C, H, W] (tensor4 N C H W (\<lambda>n c h w.
            bn_formula (gs ! c) (entry4 (NDArray [N, C, H, W] xs) n c h w)
              (channel_mean (NDArray [N, C, H, W] xs) c)
              (channel_var (NDArray [N, C, H, W] xs) c) eps (bs ! c))))"
  using assms
  by (simp add: batch_norm_conv_def conv_X_hat_closed bindE_def reshape_def length_tensor4
        broadcast_op_channels broadcast_op_channels_left nth_tensor4 scale_shift
        cong: tensor4_cong)

section \<open>The function on valid arrays\<close>

lemma ndarray_eq: "shape X = s \<Longrightarrow> X = NDArray s (data X)"
  by (cases X) simp

lemma shape2: "length s = 2 \<Longrightarrow> \<exists>a b. s = [a, b]"
  by (auto simp: length_Suc_conv eval_nat_numeral)

lemma shape4: "length s = 4 \<Longrightarrow> \<exists>a b c d. s = [a, b, c, d]"
  by (auto simp: length_Suc_conv eval_nat_numeral)

lemma pure_batch_norm_dense:
  assumes "valid X" and "shape X = [N, C]"
    and "valid gamma" and "shape gamma = [C]"
    and "valid beta" and "shape beta = [C]"
  shows "pure_batch_norm mm X gamma beta eps =
         Inr (NDArray [N, C] (matrix N C (\<lambda>i j.
            bn_formula (data gamma ! j) (entry2 X i j) (batch_mean X j) (batch_var X j) eps
                       (data beta ! j))))"
proof -
  obtain xs gs bs where X: "X = NDArray [N, C] xs" and g: "gamma = NDArray [C] gs"
    and b: "beta = NDArray [C] bs"
    using assms(2,4,6) ndarray_eq by blast
  from assms(1,3,5) have len: "0 < N" "length xs = N * C" "length gs = C" "length bs = C"
    by (simp_all add: valid_def X g b)
  then show ?thesis
    by (simp add: pure_batch_norm_def batch_norm_dense_closed X g b entry2_NDArray)
qed

lemma pure_batch_norm_conv:
  assumes "valid X" and "shape X = [N, C, H, W]"
    and "valid gamma" and "shape gamma = [C]"
    and "valid beta" and "shape beta = [C]"
  shows "pure_batch_norm mm X gamma beta eps =
         Inr (NDArray [N, C, H, W] (tensor4 N C H W (\<lambda>n c h w.
            bn_formula (data gamma ! c) (entry4 X n c h w) (channel_mean X c) (channel_var X c) eps
                       (data beta ! c))))"
proof -
  obtain xs gs bs where X: "X = NDArray [N, C, H, W] xs" and g: "gamma = NDArray [C] gs"
    and b: "beta = NDArray [C] bs"
    using assms(2,4,6) ndarray_eq by blast
  from assms(1,3,5) have len: "0 < N" "0 < H" "0 < W" "length xs = N * (C * (H * W))"
      "length gs = C" "length bs = C"
    by (simp_all add: valid_def X g b)
  then show ?thesis
    by (simp add: pure_batch_norm_def batch_norm_conv_closed X g b)
qed

section \<open>Errors\<close>

lemma pure_batch_norm_returns:
  assumes "valid X" and "length (shape X) = 2 \<or> length (shape X) = 4"
    and "valid gamma" and "shape gamma = [shape X ! 1]"
    and "valid beta" and "shape beta = [shape X ! 1]"
  shows "\<exists>Y. pure_batch_norm mm X gamma beta eps = Inr Y"
  using assms(2)
proof
  assume "length (shape X) = 2"
  then obtain N C where s: "shape X = [N, C]"
    using shape2 by blast
  with assms show ?thesis
    by (simp add: pure_batch_norm_dense [of X N C])
next
  assume "length (shape X) = 4"
  then obtain N C H W where s: "shape X = [N, C, H, W]"
    using shape4 by blast
  with assms show ?thesis
    by (simp add: pure_batch_norm_conv [of X N C H W])
qed

section \<open>Finite results\<close>









section \<open>Constant features\<close>

lemma sum_upt_const: "(\<Sum>i\<leftarrow>[0..<n]. (k :: real)) = real n * k"
  by (simp add: sum_list_triv)




section \<open>Mean and variance of a standardized column\<close>

lemma sum_list_divide: "(\<Sum>i\<leftarrow>xs. f i / (c :: real)) = (\<Sum>i\<leftarrow>xs. f i) / c"
  by (induction xs) (simp_all add: add_divide_distrib)

lemma sum_centred:
  assumes "0 < N"
  shows "(\<Sum>i\<leftarrow>[0..<N]. f i - (\<Sum>i\<leftarrow>[0..<N]. f i) / real N) = (0 :: real)"
  using assms by (simp add: sum_list_subtractf sum_upt_const)

lemma column_matrix:
  assumes "j < C"
  shows "column (NDArray [N, C] (matrix N C f)) j = map (\<lambda>i. f i j) [0..<N]"
  using assms by (simp add: column_def entry2_NDArray nth_matrix)

lemma standardized_mean:
  assumes "0 < N" "m = (\<Sum>i\<leftarrow>[0..<N]. x i) / real N"
  shows "list_mean (map (\<lambda>i. (x i - m) / s) [0..<N]) = 0"
proof -
  have "(\<Sum>i\<leftarrow>[0..<N]. (x i - m) / s) = (\<Sum>i\<leftarrow>[0..<N]. x i - m) / s"
    by (rule sum_list_divide)
  also have "(\<Sum>i\<leftarrow>[0..<N]. x i - m) = 0"
    unfolding assms(2) using assms(1) by (rule sum_centred)
  finally show ?thesis
    by (simp add: list_mean_def comp_def)
qed

lemma affine_mean:
  assumes "0 < length zs"
  shows "list_mean (map (\<lambda>z. g * z + b) zs) = g * list_mean zs + b"
  using assms
  by (simp add: list_mean_def comp_def sum_list_addf sum_list_const_mult sum_list_triv
        add_divide_distrib)

lemma standardized_var:
  assumes "0 < N" "m = (\<Sum>i\<leftarrow>[0..<N]. x i) / real N"
    "v = (\<Sum>i\<leftarrow>[0..<N]. (x i - m) ^ 2) / real N" "0 < v"
  shows "list_var (map (\<lambda>i. (x i - m) / sqrt v) [0..<N]) = 1"
proof -
  let ?zs = "map (\<lambda>i. (x i - m) / sqrt v) [0..<N]"
  have m0: "list_mean ?zs = 0"
    using assms(1,2) by (rule standardized_mean)
  have "(\<Sum>i\<leftarrow>[0..<N]. ((x i - m) / sqrt v) ^ 2) = (\<Sum>i\<leftarrow>[0..<N]. (x i - m) ^ 2 / v)"
    using assms(4) by (intro sum_upt_cong) (simp add: power_divide)
  also have "\<dots> = (\<Sum>i\<leftarrow>[0..<N]. (x i - m) ^ 2) / v"
    by (rule sum_list_divide)
  also have "\<dots> = real N"
    using assms(1,3,4) by (simp add: field_simps)
  finally have "(\<Sum>i\<leftarrow>[0..<N]. ((x i - m) / sqrt v) ^ 2) = real N" .
  with assms(1) show ?thesis
    by (simp add: list_var_def m0) (simp add: list_mean_def comp_def)
qed

section \<open>Spatial axes of length one\<close>





section \<open>The log of the training loop\<close>

















section \<open>The store after a call\<close>

lemmas st_defs = bindS_def new_real_def new_float_def st_mean_def st_sub_def st_scalar_def
  st_reshape_def st_sqrt_def st_div_def st_mul_def st_add_def

lemma dense_st_value:
  assumes "X < length (reals h)" "gamma < length (reals h)" "beta < length (reals h)"
  shows "case dense_st X gamma beta eps h of (r, h') \<Rightarrow>
           take (length (reals h)) (reals h') = reals h \<and>
           take (length (floats h)) (floats h') = floats h \<and>
           map_sum id ((!) (floats h')) r =
             batch_norm_dense (reals h ! X) (reals h ! gamma) (reals h ! beta) eps"
  using assms
  by (simp add: dense_st_def st_defs batch_norm_dense_def dense_X_hat_def dense_divisor_def
        dense_variance_def dense_mean_def bindE_def nth_append split: sum.split)

lemma conv_st_value:
  assumes "X < length (reals h)" "gamma < length (reals h)" "beta < length (reals h)"
  shows "case conv_st mm X gamma beta eps h of (r, h') \<Rightarrow>
           take (length (reals h)) (reals h') = reals h \<and>
           take (length (floats h)) (floats h') = floats h \<and>
           map_sum id ((!) (floats h')) r =
             batch_norm_conv mm (reals h ! X) (reals h ! gamma) (reals h ! beta) eps"
  using assms
  by (simp add: conv_st_def st_defs batch_norm_conv_def conv_X_hat_def conv_divisor_def
        conv_variance_def conv_mean_def bindE_def nth_append Let_def split: sum.split)

lemma pure_batch_norm_st_value:
  assumes "X < length (reals h)" "gamma < length (reals h)" "beta < length (reals h)"
  shows "case pure_batch_norm_st mm X gamma beta eps h of (r, h') \<Rightarrow>
           take (length (reals h)) (reals h') = reals h \<and>
           take (length (floats h)) (floats h') = floats h \<and>
           map_sum id ((!) (floats h')) r =
             pure_batch_norm mm (reals h ! X) (reals h ! gamma) (reals h ! beta) eps"
  using dense_st_value [OF assms, of eps] conv_st_value [OF assms, of mm eps]
  by (simp add: pure_batch_norm_st_def pure_batch_norm_def)

lemma take_eq_nth:
  assumes "take n ys = xs" "length xs = n" "i < n"
  shows "ys ! i = xs ! i" and "i < length ys"
proof -
  from assms(1,3) show "ys ! i = xs ! i"
    by (metis nth_take)
  from assms show "i < length ys"
    by (metis length_take min_less_iff_conj)
qed

section \<open>A column against a matrix\<close>



section \<open>Rounding to float32\<close>








section \<open>The float32 function on given inputs\<close>
















section \<open>The dense branch\<close>




section \<open>The convolution branch\<close>




section \<open>Shape of the result\<close>

text \<open>
  Claim C9. For a valid input of rank 2 or 4, with \<open>gamma\<close> and \<open>beta\<close> of the length
  of the feature or channel axis, the result has exactly the shape of \<open>X\<close>.
\<close>

theorem output_shape:
  assumes "valid X" and "length (shape X) = 2 \<or> length (shape X) = 4"
    and "valid gamma" and "shape gamma = [shape X ! 1]"
    and "valid beta" and "shape beta = [shape X ! 1]"
  shows "\<exists>Y. pure_batch_norm mm X gamma beta eps = Inr Y \<and> shape Y = shape X \<and> valid Y"
  using assms(2)
proof
  assume "length (shape X) = 2"
  then obtain N C where s: "shape X = [N, C]"
    using shape2 by blast
  with assms have "0 < N" "0 < C"
    by (simp_all add: valid_def)
  with s assms show ?thesis
    by (simp add: pure_batch_norm_dense [of X N C] valid_def length_matrix)
next
  assume "length (shape X) = 4"
  then obtain N C H W where s: "shape X = [N, C, H, W]"
    using shape4 by blast
  with assms have "0 < N" "0 < C" "0 < H" "0 < W"
    by (simp_all add: valid_def)
  with s assms show ?thesis
    by (simp add: pure_batch_norm_conv [of X N C H W] valid_def length_tensor4)
qed

theorem output_shape_witness:
  "valid (NDArray [2, 1] [0, 2 :: real]) \<and> valid (NDArray [1] [3 :: real]) \<and>
   valid (NDArray [1] [5 :: real]) \<and>
   (\<exists>Y. pure_batch_norm mismatch_notebook (NDArray [2, 1] [0, 2]) (NDArray [1] [3]) (NDArray [1] [5]) 3 = Inr Y \<and>
        shape Y = [2, 1] \<and> valid Y) \<and>
   valid (NDArray [1, 2, 1, 2] [0, 2, 4, 4 :: real]) \<and> valid (NDArray [2] [3, 1 :: real]) \<and>
   valid (NDArray [2] [5, 6 :: real]) \<and>
   (\<exists>Y. pure_batch_norm mismatch_notebook (NDArray [1, 2, 1, 2] [0, 2, 4, 4]) (NDArray [2] [3, 1]) (NDArray [2] [5, 6]) 3 = Inr Y \<and>
        shape Y = [1, 2, 1, 2] \<and> valid Y)"
  using output_shape [of "NDArray [2, 1] [0, 2]" "NDArray [1] [3]" "NDArray [1] [5]" mismatch_notebook 3]
    output_shape [of "NDArray [1, 2, 1, 2] [0, 2, 4, 4]" "NDArray [2] [3, 1]" "NDArray [2] [5, 6]"
      mismatch_notebook 3]
  by (simp add: valid_def)

section \<open>The rank check\<close>

text \<open>
  Claim C3, as amended. \<open>pure_batch_norm\<close> raises \<open>ValueError\<close> whenever the rank of
  \<open>X\<close> is neither 2 nor 4. For a valid \<open>X\<close> of rank 2 or 4 with \<open>gamma\<close> and
  \<open>beta\<close> vectors of the length of the feature or channel axis, it returns a result
  without raising. Both hold whatever the framework does with a reshape to another size.
\<close>

theorem rank_check:
  "(length (shape X) \<notin> {2, 4} \<longrightarrow> pure_batch_norm mm X gamma beta eps = Inl ValueError) \<and>
   (valid X \<and> length (shape X) \<in> {2, 4} \<and> valid gamma \<and> shape gamma = [shape X ! 1] \<and>
    valid beta \<and> shape beta = [shape X ! 1]
    \<longrightarrow> (\<exists>Y. pure_batch_norm mm X gamma beta eps = Inr Y))"
proof
  show "length (shape X) \<notin> {2, 4} \<longrightarrow> pure_batch_norm mm X gamma beta eps = Inl ValueError"
    by (simp add: pure_batch_norm_def)
  show "valid X \<and> length (shape X) \<in> {2, 4} \<and> valid gamma \<and> shape gamma = [shape X ! 1] \<and>
    valid beta \<and> shape beta = [shape X ! 1]
    \<longrightarrow> (\<exists>Y. pure_batch_norm mm X gamma beta eps = Inr Y)"
    using pure_batch_norm_returns [where X = X and gamma = gamma and beta = beta] by auto
qed

theorem rank_check_witness:
  "length (shape (NDArray [2] [0, 2 :: real])) \<notin> {2, 4} \<and>
   pure_batch_norm mismatch_1_9_1 (NDArray [2] [0, 2]) (NDArray [1] [3]) (NDArray [1] [5]) 3
     = Inl ValueError \<and>
   valid (NDArray [2, 1] [0, 2 :: real]) \<and> length (shape (NDArray [2, 1] [0, 2 :: real])) \<in> {2, 4} \<and>
   valid (NDArray [1] [3 :: real]) \<and> valid (NDArray [1] [5 :: real]) \<and>
   (\<exists>Y. pure_batch_norm mismatch_1_9_1 (NDArray [2, 1] [0, 2]) (NDArray [1] [3]) (NDArray [1] [5]) 3
          = Inr Y)"
  using rank_check [where X = "NDArray [2] [0, 2]" and gamma = "NDArray [1] [3]"
      and beta = "NDArray [1] [5]" and eps = 3 and mm = mismatch_1_9_1]
    rank_check [where X = "NDArray [2, 1] [0, 2]" and gamma = "NDArray [1] [3]"
      and beta = "NDArray [1] [5]" and eps = 3 and mm = mismatch_1_9_1]
  by (simp add: valid_def)

text \<open>
  As stated, the claim fails twice. It promises a result for every input of rank 2 or
  4: with a \<open>gamma\<close> of length 3 for two features the framework's multiplication cannot
  broadcast the shapes \<open>(3)\<close> and \<open>(1, 2)\<close> and raises its own error. And it promises
  that \<open>ValueError\<close> is raised only when the rank is wrong: with a \<open>gamma\<close> of two
  elements for one channel of a 4-D input, \<open>gamma.reshape((1, C, 1, 1))\<close> raises
  \<open>ValueError\<close> in MXNet 1.9.1, at rank 4.
\<close>

theorem rank_check_counterexample:
  "length (shape (NDArray [1, 2] [1, 1 :: real])) = 2 \<and>
   pure_batch_norm mismatch_notebook (NDArray [1, 2] [1, 1]) (NDArray [3] [1, 1, 1])
     (NDArray [2] [0, 0]) 1 = Inl MXNetError \<and>
   length (shape (NDArray [2, 1, 1, 1] [0, 2 :: real])) = 4 \<and>
   pure_batch_norm mismatch_1_9_1 (NDArray [2, 1, 1, 1] [0, 2]) (NDArray [2] [1, 1])
     (NDArray [1] [0]) 1 = Inl ValueError"
proof -
  have "pure_batch_norm mismatch_notebook (NDArray [1, 2] [1, 1]) (NDArray [3] [1, 1, 1])
     (NDArray [2] [0, 0]) 1 = Inl MXNetError"
    by (simp add: pure_batch_norm_def batch_norm_dense_def dense_X_hat_closed bindE_def
          broadcast_op_def pad_shape_def)
  moreover have "conv_X_hat mismatch_1_9_1 (NDArray [2, 1, 1, 1] [0, 2]) 1 =
      Inr (NDArray [2, 1, 1, 1] (tensor4 2 1 1 1 (\<lambda>n c h w.
            standardized (entry4 (NDArray [2, 1, 1, 1] [0, 2]) n c h w)
                         (channel_mean (NDArray [2, 1, 1, 1] [0, 2]) c)
                         (channel_var (NDArray [2, 1, 1, 1] [0, 2]) c) 1)))"
    using conv_X_hat_closed [of 2 1 1 "[0, 2]" 1 mismatch_1_9_1 1] by simp
  then have "pure_batch_norm mismatch_1_9_1 (NDArray [2, 1, 1, 1] [0, 2]) (NDArray [2] [1, 1])
     (NDArray [1] [0]) 1 = Inl ValueError"
    by (simp add: pure_batch_norm_def batch_norm_conv_def bindE_def reshape_def
          mismatch_1_9_1_def)
  ultimately show ?thesis
    by simp
qed

section \<open>The divisor\<close>




section \<open>A constant feature\<close>



text \<open>
  The hypothesis \<open>eps > 0\<close> is needed: with \<open>eps = 0\<close> the divisor of a constant
  feature is \<open>sqrt 0 = 0\<close>, the quotient \<open>0 / 0\<close> is \<open>nan\<close>, and so is the result.
\<close>

lemma constant_feature_eps_zero:
  "valid (NDArray [2, 1] [1, 1 :: real]) \<and> valid (NDArray [1] [1 :: real]) \<and>
   valid (NDArray [1] [5 :: real]) \<and>
   entry2 (NDArray [2, 1] [1, 1 :: real]) 0 0 = 1 \<and> entry2 (NDArray [2, 1] [1, 1 :: real]) 1 0 = 1 \<and>
   pure_batch_norm mismatch_notebook (NDArray [2, 1] [1, 1]) (NDArray [1] [1]) (NDArray [1] [5]) 0
     = Inr (NDArray [2, 1] [None, None]) \<and>
   entry2 (NDArray [2, 1] [None, None :: real option]) 0 0 \<noteq> Some 5"
  by (simp add: pure_batch_norm_dense [of _ 2 1] valid_def matrix_def bn_formula_def entry2_def
        batch_mean_def batch_var_def eval_nat_numeral)


section \<open>Standardization\<close>

text \<open>
  Claim C5, as amended. In exact arithmetic, for every 2-D input and every feature \<open>j\<close>
  whose variance plus \<open>eps\<close> is positive (every feature when \<open>eps > 0\<close>), the
  normalized values \<open>X_hat\<close> of the feature are finite and have mean 0 over the batch
  axis, so the mean of the output over the batch axis is \<open>beta[j]\<close>; and with
  \<open>eps = 0\<close> and a variance that is not zero, the variance of \<open>X_hat\<close> in the
  feature is 1.
\<close>

theorem standardization:
  assumes "valid X" and "shape X = [N, C]"
    and "valid gamma" and "shape gamma = [C]"
    and "valid beta" and "shape beta = [C]"
    and "j < C" and "0 < batch_var X j + eps"
  shows "\<exists>Z Y zs ys.
           dense_X_hat X eps = Inr Z \<and> column Z j = map Some zs \<and>
           pure_batch_norm mm X gamma beta eps = Inr Y \<and> column Y j = map Some ys \<and>
           length zs = N \<and> length ys = N \<and>
           list_mean zs = 0 \<and> list_mean ys = data beta ! j \<and>
           (eps = 0 \<longrightarrow> list_var zs = 1)"
proof -
  obtain xs where X: "X = NDArray [N, C] xs"
    using assms(2) ndarray_eq by blast
  from assms(1) have len: "0 < N" "length xs = N * C"
    by (simp_all add: valid_def X)
  let ?m = "batch_mean X j" and ?v = "batch_var X j"
  let ?s = "sqrt (?v + eps)"
  let ?zs = "map (\<lambda>i. (entry2 X i j - ?m) / ?s) [0..<N]"
  let ?ys = "map (\<lambda>z. data gamma ! j * z + data beta ! j) ?zs"
  have m: "?m = (\<Sum>i\<leftarrow>[0..<N]. entry2 X i j) / real N"
    by (simp add: batch_mean_def assms(2))
  have v: "?v = (\<Sum>i\<leftarrow>[0..<N]. (entry2 X i j - ?m) ^ 2) / real N"
    by (simp add: batch_var_def assms(2))
  have Z: "dense_X_hat X eps = Inr (NDArray [N, C] (matrix N C (\<lambda>i j.
            standardized (entry2 X i j) (batch_mean X j) (batch_var X j) eps)))"
    using len by (simp add: X dense_X_hat_closed entry2_NDArray)
  have colZ: "column (NDArray [N, C] (matrix N C (\<lambda>i j.
            standardized (entry2 X i j) (batch_mean X j) (batch_var X j) eps))) j = map Some ?zs"
    using assms(7,8) by (simp add: column_matrix standardized_def comp_def)
  have Y: "pure_batch_norm mm X gamma beta eps = Inr (NDArray [N, C] (matrix N C (\<lambda>i j.
            bn_formula (data gamma ! j) (entry2 X i j) (batch_mean X j) (batch_var X j) eps
                       (data beta ! j))))"
    using assms(1-6) by (rule pure_batch_norm_dense)
  have colY: "column (NDArray [N, C] (matrix N C (\<lambda>i j.
            bn_formula (data gamma ! j) (entry2 X i j) (batch_mean X j) (batch_var X j) eps
                       (data beta ! j)))) j = map Some ?ys"
    using assms(7,8) by (simp add: column_matrix bn_formula_def comp_def)
  have mz: "list_mean ?zs = 0"
    using len(1) m by (rule standardized_mean)
  have my: "list_mean ?ys = data beta ! j"
    using len(1) mz by (simp add: affine_mean del: map_map)
  have vz: "list_var ?zs = 1" if "eps = 0"
  proof -
    from that assms(8) have "0 < ?v" by simp
    with len(1) m v have "list_var (map (\<lambda>i. (entry2 X i j - ?m) / sqrt ?v) [0..<N]) = 1"
      by (rule standardized_var)
    with that show ?thesis by simp
  qed
  show ?thesis
    using Z colZ Y colY mz my vz by (intro exI [of _ "NDArray [N, C] _"] exI [of _ ?zs] exI [of _ ?ys]) simp
qed

theorem standardization_witness:
  "valid (NDArray [2, 1] [0, 2 :: real]) \<and> valid (NDArray [1] [3 :: real]) \<and>
   valid (NDArray [1] [5 :: real]) \<and> (0 :: nat) < 1 \<and>
   0 < batch_var (NDArray [2, 1] [0, 2]) 0 + 0 \<and>
   (\<exists>Z Y zs ys.
      dense_X_hat (NDArray [2, 1] [0, 2]) 0 = Inr Z \<and> column Z 0 = map Some zs \<and>
      pure_batch_norm mismatch_notebook (NDArray [2, 1] [0, 2]) (NDArray [1] [3]) (NDArray [1] [5]) 0 = Inr Y \<and>
      column Y 0 = map Some ys \<and> length zs = 2 \<and> length ys = 2 \<and>
      list_mean zs = 0 \<and> list_mean ys = 5 \<and> list_var zs = 1)"
proof -
  have v: "0 < batch_var (NDArray [2, 1] [0, 2]) 0 + 0"
    by (simp add: batch_var_def batch_mean_def entry2_def eval_nat_numeral)
  show ?thesis
    using v standardization [of "NDArray [2, 1] [0, 2]" 2 1 "NDArray [1] [3]" "NDArray [1] [5]" 0 0
        mismatch_notebook]
    by (simp add: valid_def)
qed

text \<open>
  As stated, the claim is about every 2-D input. With \<open>eps = 0\<close> the normalized values
  of a constant feature are \<open>0 / 0\<close>, that is \<open>nan\<close>, and have no mean.
\<close>

theorem standardization_counterexample:
  "valid (NDArray [2, 1] [1, 1 :: real]) \<and>
   dense_X_hat (NDArray [2, 1] [1, 1]) 0 = Inr (NDArray [2, 1] [None, None]) \<and>
   column (NDArray [2, 1] [None, None :: real option]) 0 = [None, None]"
  by (simp add: dense_X_hat_closed valid_def matrix_def standardized_def column_def entry2_def
        batch_mean_def batch_var_def eval_nat_numeral)

section \<open>The two branches on spatial axes of length one\<close>




section \<open>Order of the framework calls\<close>



section \<open>No state, no effect on the arguments\<close>

text \<open>
  Claim C6. A call of \<open>pure_batch_norm\<close> leaves \<open>X\<close>, \<open>gamma\<close> and \<open>beta\<close>, and
  every other array that existed before the call, unchanged; its result is the value of
  the function \<open>pure_batch_norm\<close> of the values of \<open>X\<close>, \<open>gamma\<close>, \<open>beta\<close> and
  \<open>eps\<close> alone; and a second call with the same arguments, on the store the first call
  left, returns an equal result.
\<close>

theorem stateless:
  assumes "X < length (reals h)" and "gamma < length (reals h)" and "beta < length (reals h)"
  shows "case pure_batch_norm_st mm X gamma beta eps h of (r, h') \<Rightarrow>
           reals h' ! X = reals h ! X \<and> reals h' ! gamma = reals h ! gamma \<and>
           reals h' ! beta = reals h ! beta \<and>
           take (length (reals h)) (reals h') = reals h \<and>
           take (length (floats h)) (floats h') = floats h \<and>
           map_sum id ((!) (floats h')) r =
             pure_batch_norm mm (reals h ! X) (reals h ! gamma) (reals h ! beta) eps \<and>
           (case pure_batch_norm_st mm X gamma beta eps h' of (r2, h2) \<Rightarrow>
              map_sum id ((!) (floats h2)) r2 = map_sum id ((!) (floats h')) r)"
proof -
  obtain r h' where run: "pure_batch_norm_st mm X gamma beta eps h = (r, h')"
    by (cases "pure_batch_norm_st mm X gamma beta eps h")
  from pure_batch_norm_st_value [OF assms, of mm eps] run
  have keep: "take (length (reals h)) (reals h') = reals h"
    "take (length (floats h)) (floats h') = floats h"
    and val: "map_sum id ((!) (floats h')) r =
             pure_batch_norm mm (reals h ! X) (reals h ! gamma) (reals h ! beta) eps"
    by simp_all
  have same: "reals h' ! X = reals h ! X" "reals h' ! gamma = reals h ! gamma"
    "reals h' ! beta = reals h ! beta"
    and inside: "X < length (reals h')" "gamma < length (reals h')" "beta < length (reals h')"
    using take_eq_nth [OF keep(1) refl] assms by simp_all
  obtain r2 h2 where again: "pure_batch_norm_st mm X gamma beta eps h' = (r2, h2)"
    by (cases "pure_batch_norm_st mm X gamma beta eps h'")
  from pure_batch_norm_st_value [OF inside, of mm eps] again
  have "map_sum id ((!) (floats h2)) r2 =
          pure_batch_norm mm (reals h' ! X) (reals h' ! gamma) (reals h' ! beta) eps"
    by simp
  with val same have "map_sum id ((!) (floats h2)) r2 = map_sum id ((!) (floats h')) r"
    by simp
  with run again keep val same show ?thesis
    by simp
qed

theorem stateless_witness:
  "(0 :: nat) < length (reals \<lparr>reals = [NDArray [2, 1] [0, 2], NDArray [1] [3], NDArray [1] [5]],
                               floats = []\<rparr>) \<and>
   (1 :: nat) < length (reals \<lparr>reals = [NDArray [2, 1] [0, 2], NDArray [1] [3], NDArray [1] [5]],
                               floats = []\<rparr>) \<and>
   (2 :: nat) < length (reals \<lparr>reals = [NDArray [2, 1] [0, 2], NDArray [1] [3], NDArray [1] [5]],
                               floats = []\<rparr>) \<and>
   (case pure_batch_norm_st mismatch_notebook 0 1 2 3
           \<lparr>reals = [NDArray [2, 1] [0, 2], NDArray [1] [3], NDArray [1] [5]], floats = []\<rparr>
    of (r, h') \<Rightarrow>
      reals h' ! 0 = NDArray [2, 1] [0, 2] \<and> reals h' ! 1 = NDArray [1] [3] \<and>
      reals h' ! 2 = NDArray [1] [5] \<and>
      map_sum id ((!) (floats h')) r = Inr (NDArray [2, 1] [Some (7 / 2), Some (13 / 2)]) \<and>
      (case pure_batch_norm_st mismatch_notebook 0 1 2 3 h' of (r2, h2) \<Rightarrow>
         map_sum id ((!) (floats h2)) r2 = map_sum id ((!) (floats h')) r))"
  using stateless [of 0 "\<lparr>reals = [NDArray [2, 1] [0, 2], NDArray [1] [3], NDArray [1] [5]],
                          floats = []\<rparr>" 1 2 mismatch_notebook 3]
  by (auto simp: pure_batch_norm_dense [of _ 2 1] valid_def matrix_def bn_formula_def entry2_def
        batch_mean_def batch_var_def eval_nat_numeral)

end
